theory Spec2Isabelle
  imports Main
begin

section \<open>JavaScript values\<close>

text \<open>
  The values that reach the code with the TypeScript type \<open>any\<close> (the \<open>err\<close> argument
  of every callback) or that a caller without types may put into a field compared with
  \<open>===\<close> (\<open>credentials\<close>). \<open>JObject\<close> stands for any object, for instance an
  \<open>Error\<close> with its message.
\<close>

datatype jsval =
    JUndefined
  | JNull
  | JBool bool
  | JNumber int
  | JString string
  | JObject string

text \<open>What \<open>if (v)\<close> and \<open>!v\<close> test.\<close>

fun truthy :: "jsval \<Rightarrow> bool" where
  "truthy JUndefined = False"
| "truthy JNull = False"
| "truthy (JBool b) = b"
| "truthy (JNumber n) = (n \<noteq> 0)"
| "truthy (JString s) = (s \<noteq> [])"
| "truthy (JObject _) = True"

subsection \<open>Strings\<close>

text \<open>\<open>String.prototype.toUpperCase\<close> on the ASCII letters of an HTTP method token.\<close>

definition toUpperCaseChar :: "char \<Rightarrow> char" where
  "toUpperCaseChar c =
     (case map_of (zip ''abcdefghijklmnopqrstuvwxyz'' ''ABCDEFGHIJKLMNOPQRSTUVWXYZ'') c of
        None \<Rightarrow> c
      | Some u \<Rightarrow> u)"

definition toUpperCase :: "string \<Rightarrow> string" where
  "toUpperCase s = map toUpperCaseChar s"

text \<open>\<open>Array.prototype.join\<close> on an array of strings.\<close>

fun join :: "string \<Rightarrow> string list \<Rightarrow> string" where
  "join sep [] = []"
| "join sep [x] = x"
| "join sep (x # y # ys) = x @ sep @ join sep (y # ys)"

text \<open>\<open>Number.prototype.toString\<close> on an integer: its decimal digits.\<close>

definition digit :: "nat \<Rightarrow> char" where
  "digit d = ''0123456789'' ! d"

fun natToString :: "nat \<Rightarrow> string" where
  "natToString n =
     (if n < 10 then [digit n] else natToString (n div 10) @ [digit (n mod 10)])"

declare natToString.simps [simp del]

definition numberToString :: "int \<Rightarrow> string" where
  "numberToString i = (if i < 0 then CHR ''-'' # natToString (nat (- i)) else natToString (nat i))"

section \<open>Configuration\<close>

text \<open>
  \<open>type Origin = boolean | string | RegExp | (string | RegExp)[]\<close>.
  The function \<open>allowed\<close> takes \<open>boolean | string | RegExp\<close> and is applied to
  the entries of an array as well, so an entry is any of the three.
  A \<open>RegExp\<close> is here the predicate that its \<open>test\<close> method computes in the one
  call an invocation of \<open>corsHandler\<close> makes of it. The objects, with the \<open>lastIndex\<close>
  that \<open>test\<close> keeps from one invocation to the next, come in the section on
  successive invocations.
\<close>

datatype OriginAtom =
    B bool
  | Str string
  | RegExp "string \<Rightarrow> bool"

datatype Origin =
    Single OriginAtom
  | Array "OriginAtom list"

text \<open>
  A user-supplied function that takes a completion callback \<open>(err, value) => void\<close>.
  It is taken to call the callback once, either before it returns (\<open>Immediately\<close>) or
  after the calling code has run to its end (\<open>Later\<close>), with an \<open>err\<close> and a value.
\<close>

datatype 'a completion =
    Immediately jsval 'a
  | Later jsval 'a

text \<open>
  The \<open>origin\<close> field before it is resolved: an \<open>Origin\<close> or an \<open>OriginCallback\<close>,
  which receives \<open>req.headers.origin\<close> and yields an \<open>Origin\<close>, or nothing.
\<close>

datatype OriginOption =
    Static Origin
  | Callback "string option \<Rightarrow> Origin option completion"

text \<open>\<open>string | string[]\<close> and \<open>number | string\<close>.\<close>

datatype StringOrArray =
    S string
  | L "string list"

datatype NumberOrString =
    Num int
  | NumStr string

text \<open>
  \<open>http.IncomingMessage\<close>: the method (field \<open>method'\<close>), and the headers under
  their lower-case names.
\<close>

record IncomingMessage =
  method' :: "string option"
  headers :: "string \<rightharpoonup> string"

text \<open>
  \<open>interface Options\<close>. Every property is optional: \<open>None\<close> is a property the
  object does not have. The type parameter is the type of \<open>origin\<close>:
  \<open>OriginOption\<close> for the options a caller supplies, \<open>Origin\<close> for the options
  \<open>corsHandler\<close> receives. \<open>credentials\<close> is compared with \<open>=== true\<close>, so it holds
  any value.
\<close>

record 'o Options =
  origin :: "'o option"
  methods :: "StringOrArray option"
  allowedHeaders :: "StringOrArray option"
  headers :: "StringOrArray option"
  exposedHeaders :: "StringOrArray option"
  credentials :: "jsval option"
  maxAge :: "NumberOrString option"
  preflightContinue :: "bool option"
  optionsSuccessStatus :: "int option"

text \<open>\<open>const defaults\<close>, as the module is loaded.\<close>

definition defaults :: "OriginOption Options" where
  "defaults =
     \<lparr> origin = Some (Static (Single (Str ''*''))),
       methods = Some (S ''GET,HEAD,PUT,PATCH,POST,DELETE''),
       allowedHeaders = None,
       headers = None,
       exposedHeaders = None,
       credentials = None,
       maxAge = None,
       preflightContinue = Some False,
       optionsSuccessStatus = Some 204 \<rparr>"

text \<open>
  The object literal \<open>{ ...a, ...b }\<close>: a new object that has each property of \<open>b\<close>,
  and each property of \<open>a\<close> that \<open>b\<close> does not have.
\<close>

definition spreadProperty :: "'a option \<Rightarrow> 'a option \<Rightarrow> 'a option" where
  "spreadProperty a b = (case b of None \<Rightarrow> a | Some v \<Rightarrow> Some v)"

definition spread :: "'o Options \<Rightarrow> 'o Options \<Rightarrow> 'o Options" where
  "spread a b =
     \<lparr> origin = spreadProperty (origin a) (origin b),
       methods = spreadProperty (methods a) (methods b),
       allowedHeaders = spreadProperty (allowedHeaders a) (allowedHeaders b),
       headers = spreadProperty (Options.headers a) (Options.headers b),
       exposedHeaders = spreadProperty (exposedHeaders a) (exposedHeaders b),
       credentials = spreadProperty (credentials a) (credentials b),
       maxAge = spreadProperty (maxAge a) (maxAge b),
       preflightContinue = spreadProperty (preflightContinue a) (preflightContinue b),
       optionsSuccessStatus = spreadProperty (optionsSuccessStatus a) (optionsSuccessStatus b) \<rparr>"

text \<open>The object literal \<open>{ ...options, origin }\<close> with the resolved origin.\<close>

definition withOrigin :: "OriginOption Options \<Rightarrow> Origin option \<Rightarrow> Origin Options" where
  "withOrigin options resolved =
     \<lparr> origin = resolved,
       methods = methods options,
       allowedHeaders = allowedHeaders options,
       headers = Options.headers options,
       exposedHeaders = exposedHeaders options,
       credentials = credentials options,
       maxAge = maxAge options,
       preflightContinue = preflightContinue options,
       optionsSuccessStatus = optionsSuccessStatus options \<rparr>"

text \<open>Truthiness of the values of the configuration.\<close>

fun truthyAtom :: "OriginAtom \<Rightarrow> bool" where
  "truthyAtom (B b) = b"
| "truthyAtom (Str s) = (s \<noteq> [])"
| "truthyAtom (RegExp r) = True"

fun truthyOrigin :: "Origin option \<Rightarrow> bool" where
  "truthyOrigin None = False"
| "truthyOrigin (Some (Single a)) = truthyAtom a"
| "truthyOrigin (Some (Array xs)) = True"

fun truthyOriginOption :: "OriginOption option \<Rightarrow> bool" where
  "truthyOriginOption None = False"
| "truthyOriginOption (Some (Static org)) = truthyOrigin (Some org)"
| "truthyOriginOption (Some (Callback f)) = True"

fun truthyStringOrArray :: "StringOrArray option \<Rightarrow> bool" where
  "truthyStringOrArray None = False"
| "truthyStringOrArray (Some (S s)) = (s \<noteq> [])"
| "truthyStringOrArray (Some (L xs)) = True"

fun truthyString :: "string option \<Rightarrow> bool" where
  "truthyString None = False"
| "truthyString (Some s) = (s \<noteq> [])"

section \<open>The response and the continuation\<close>

text \<open>
  The code acts on the world only through calls on \<open>res\<close>, on \<open>vary\<close> (of the package
  of that name, which appends a field to the response's \<open>Vary\<close> header) and on the
  continuation it is given. The state it changes is the sequence of these calls, in
  program order.
\<close>

datatype event =
    SetHeader string string
  | Vary string
  | SetStatusCode "int option"
  | End
  | Next jsval
  | Resolve
  | Reject jsval

type_synonym trace = "event list"

definition setHeader :: "string \<Rightarrow> string \<Rightarrow> trace \<Rightarrow> trace" where
  "setHeader name v tr = tr @ [SetHeader name v]"

definition vary :: "string \<Rightarrow> trace \<Rightarrow> trace" where
  "vary field tr = tr @ [Vary field]"

definition setStatusCode :: "int option \<Rightarrow> trace \<Rightarrow> trace" where
  "setStatusCode code tr = tr @ [SetStatusCode code]"

definition end_response :: "trace \<Rightarrow> trace" where
  "end_response tr = tr @ [End]"

text \<open>The continuation of a callback-style host: \<open>next(err)\<close>; \<open>next()\<close> passes \<open>undefined\<close>.\<close>

definition hostNext :: "jsval \<Rightarrow> trace \<Rightarrow> trace" where
  "hostNext err tr = tr @ [Next err]"

text \<open>What a trace shows: the values a header was set to, the fields given to
  \<open>vary\<close>, the arguments of the continuation, and the calls on the response.\<close>

fun headerValues :: "string \<Rightarrow> trace \<Rightarrow> string list" where
  "headerValues name [] = []"
| "headerValues name (SetHeader n v # tr) =
     (if n = name then v # headerValues name tr else headerValues name tr)"
| "headerValues name (_ # tr) = headerValues name tr"

fun varyFields :: "trace \<Rightarrow> string list" where
  "varyFields [] = []"
| "varyFields (Vary f # tr) = f # varyFields tr"
| "varyFields (_ # tr) = varyFields tr"

fun nextCalls :: "trace \<Rightarrow> jsval list" where
  "nextCalls [] = []"
| "nextCalls (Next err # tr) = err # nextCalls tr"
| "nextCalls (_ # tr) = nextCalls tr"

fun statusCodes :: "trace \<Rightarrow> int option list" where
  "statusCodes [] = []"
| "statusCodes (SetStatusCode c # tr) = c # statusCodes tr"
| "statusCodes (_ # tr) = statusCodes tr"

text \<open>A call that sets a header or appends to \<open>Vary\<close>.\<close>

fun isHeaderCall :: "event \<Rightarrow> bool" where
  "isHeaderCall (SetHeader n v) = True"
| "isHeaderCall (Vary f) = True"
| "isHeaderCall _ = False"

fun isResponseCall :: "event \<Rightarrow> bool" where
  "isResponseCall (SetHeader n v) = True"
| "isResponseCall (Vary f) = True"
| "isResponseCall (SetStatusCode c) = True"
| "isResponseCall End = True"
| "isResponseCall _ = False"

definition responseCalls :: "trace \<Rightarrow> trace" where
  "responseCalls tr = filter isResponseCall tr"

text \<open>The pattern \<open>/.*/\<close>, which every string matches.\<close>

definition matchAny :: "string \<Rightarrow> bool" where
  "matchAny s = True"

text \<open>A pattern that matches the strings with a given literal suffix, such as \<open>.b.com\<close>.\<close>

definition endsWith :: "string \<Rightarrow> string \<Rightarrow> bool" where
  "endsWith suffix s =
     (length suffix \<le> length s \<and> drop (length s - length suffix) s = suffix)"

section \<open>The handler\<close>

subsection \<open>\<open>originHeaders\<close>\<close>

fun allowed :: "string option \<Rightarrow> OriginAtom \<Rightarrow> bool" where
  "allowed requestOrigin (RegExp r) =
     r (case requestOrigin of None \<Rightarrow> ''undefined'' | Some s \<Rightarrow> s)"
| "allowed requestOrigin (Str s) = (requestOrigin = Some s)"
| "allowed requestOrigin (B b) = b"

text \<open>\<open>!!originAllowed.find(...)\<close>: the first entry that allows the origin, as a boolean.\<close>

fun isOriginAllowed :: "string option \<Rightarrow> Origin \<Rightarrow> bool" where
  "isOriginAllowed requestOrigin (Array xs) =
     (case find (allowed requestOrigin) xs of None \<Rightarrow> False | Some a \<Rightarrow> truthyAtom a)"
| "isOriginAllowed requestOrigin (Single a) = allowed requestOrigin a"

text \<open>\<open>isOriginAllowed(requestOrigin, origin) && requestOrigin\<close>, and the test \<open>if (allowedOrigin)\<close>.\<close>

definition reflectOrDeny :: "string option \<Rightarrow> Origin \<Rightarrow> trace \<Rightarrow> trace" where
  "reflectOrDeny requestOrigin org tr =
     (let allowedOrigin = (if isOriginAllowed requestOrigin org then requestOrigin else None)
      in case allowedOrigin of
           None \<Rightarrow> tr
         | Some v \<Rightarrow>
             if v \<noteq> [] then setHeader ''Access-Control-Allow-Origin'' v (vary ''Origin'' tr)
             else tr)"

text \<open>\<open>origin === "*"\<close>, and the narrowing \<open>isString(origin)\<close>.\<close>

fun isStar :: "Origin option \<Rightarrow> bool" where
  "isStar (Some (Single (Str s))) = (s = ''*'')"
| "isStar _ = False"

fun isString :: "Origin option \<Rightarrow> string option" where
  "isString (Some (Single (Str s))) = Some s"
| "isString _ = None"

definition originHeaders :: "Origin Options \<Rightarrow> IncomingMessage \<Rightarrow> trace \<Rightarrow> trace" where
  "originHeaders options req tr =
     (let org = origin options;
          requestOrigin = IncomingMessage.headers req ''origin''
      in if \<not> truthyOrigin org \<or> isStar org then
           setHeader ''Access-Control-Allow-Origin'' ''*'' tr
         else
           (case isString org of
              Some s \<Rightarrow> setHeader ''Access-Control-Allow-Origin'' s (vary ''Origin'' tr)
            | None \<Rightarrow>
                (case org of
                   None \<Rightarrow> tr
                 | Some policy \<Rightarrow> reflectOrDeny requestOrigin policy tr)))"

subsection \<open>\<open>credentialsHeaders\<close>, \<open>methodsHeaders\<close>\<close>

definition credentialsHeaders :: "Origin Options \<Rightarrow> trace \<Rightarrow> trace" where
  "credentialsHeaders options tr =
     (if credentials options = Some (JBool True)
      then setHeader ''Access-Control-Allow-Credentials'' ''true'' tr
      else tr)"

text \<open>An array is joined; the header is set when the string is not empty.\<close>

fun stringify :: "StringOrArray \<Rightarrow> string" where
  "stringify (L xs) = join '','' xs"
| "stringify (S s) = s"

definition methodsHeaders :: "Origin Options \<Rightarrow> trace \<Rightarrow> trace" where
  "methodsHeaders options tr =
     (case methods options of
        None \<Rightarrow> tr
      | Some m \<Rightarrow>
          if stringify m \<noteq> [] then setHeader ''Access-Control-Allow-Methods'' (stringify m) tr
          else tr)"

subsection \<open>\<open>allowedHeaders\<close>, \<open>cacheHeaders\<close>, \<open>exposedHeaders\<close>\<close>

text \<open>\<open>options.allowedHeaders || options.headers\<close>.\<close>

definition configuredHeaders :: "Origin Options \<Rightarrow> StringOrArray option" where
  "configuredHeaders options =
     (if truthyStringOrArray (allowedHeaders options) then allowedHeaders options
      else Options.headers options)"

definition allowedHeadersFn :: "Origin Options \<Rightarrow> IncomingMessage \<Rightarrow> trace \<Rightarrow> trace" where
  "allowedHeadersFn options req tr =
     (let hs = configuredHeaders options in
      if truthyStringOrArray hs then
        (case hs of
           None \<Rightarrow> tr
         | Some h \<Rightarrow>
             if length (stringify h) \<noteq> 0
             then setHeader ''Access-Control-Allow-Headers'' (stringify h) tr
             else tr)
      else if truthyString (IncomingMessage.headers req ''access-control-request-headers'') then
        (case IncomingMessage.headers req ''access-control-request-headers'' of
           None \<Rightarrow> tr
         | Some v \<Rightarrow>
             setHeader ''Access-Control-Allow-Headers'' v
               (vary ''Access-Control-Request-Headers'' tr))
      else tr)"

text \<open>
  \<open>(typeof maxAge === "number" || maxAge) && maxAge.toString()\<close>: a number gives its
  digits, a non-empty string itself, an empty string the empty string, \<open>undefined\<close>
  \<open>undefined\<close>.
\<close>

fun maxAgeString :: "NumberOrString option \<Rightarrow> string option" where
  "maxAgeString None = None"
| "maxAgeString (Some (Num n)) = Some (numberToString n)"
| "maxAgeString (Some (NumStr s)) = Some s"

definition cacheHeaders :: "Origin Options \<Rightarrow> trace \<Rightarrow> trace" where
  "cacheHeaders options tr =
     (case maxAgeString (maxAge options) of
        None \<Rightarrow> tr
      | Some s \<Rightarrow>
          if s \<noteq> [] \<and> length s \<noteq> 0 then setHeader ''Access-Control-Max-Age'' s tr
          else tr)"

definition exposedHeadersFn :: "Origin Options \<Rightarrow> trace \<Rightarrow> trace" where
  "exposedHeadersFn options tr =
     (if truthyStringOrArray (exposedHeaders options) then
        (case exposedHeaders options of
           None \<Rightarrow> tr
         | Some h \<Rightarrow>
             if length (stringify h) \<noteq> 0
             then setHeader ''Access-Control-Expose-Headers'' (stringify h) tr
             else tr)
      else tr)"

subsection \<open>\<open>corsHandler\<close>\<close>

text \<open>\<open>req.method && req.method.toUpperCase && req.method.toUpperCase() === "OPTIONS"\<close>.\<close>

definition isPreflight :: "IncomingMessage \<Rightarrow> bool" where
  "isPreflight req =
     (case method' req of
        None \<Rightarrow> False
      | Some m \<Rightarrow> m \<noteq> [] \<and> toUpperCase m = ''OPTIONS'')"

definition corsHandler ::
  "Origin Options \<Rightarrow> IncomingMessage \<Rightarrow> (jsval \<Rightarrow> trace \<Rightarrow> trace) \<Rightarrow> trace \<Rightarrow> trace" where
  "corsHandler options req next tr =
     (if isPreflight req then
        (let tr = originHeaders options req tr;
             tr = credentialsHeaders options tr;
             tr = methodsHeaders options tr;
             tr = allowedHeadersFn options req tr;
             tr = cacheHeaders options tr;
             tr = exposedHeadersFn options tr
         in if preflightContinue options = Some True then next JUndefined tr
            else end_response
                   (setHeader ''Content-Length'' ''0''
                     (setStatusCode (optionsSuccessStatus options) tr)))
      else
        (let tr = originHeaders options req tr;
             tr = credentialsHeaders options tr;
             tr = exposedHeadersFn options tr
         in next JUndefined tr))"

section \<open>The middleware\<close>

text \<open>
  The state of a request: the module's \<open>defaults\<close> object, which every request reads,
  and the calls made so far on the response and the continuation. Neither
  \<open>corsHandler\<close> nor the continuation has the module's \<open>defaults\<close> in scope.
\<close>

record runtime =
  defaultsObject :: "OriginOption Options"
  events :: trace

definition initial :: runtime where
  "initial = \<lparr> defaultsObject = defaults, events = [] \<rparr>"

datatype CorsOpts =
    OptionsObject "OriginOption Options"
  | OptionsCallback "IncomingMessage \<Rightarrow> OriginOption Options completion"

definition corsMdlwrOrigin ::
  "OriginOption Options \<Rightarrow> IncomingMessage \<Rightarrow> (jsval \<Rightarrow> trace \<Rightarrow> trace) \<Rightarrow>
     jsval \<Rightarrow> Origin option \<Rightarrow> trace \<Rightarrow> trace" where
  "corsMdlwrOrigin options req next err resolved tr =
     (if truthy err \<or> \<not> truthyOrigin resolved then next err tr
      else corsHandler (withOrigin options resolved) req next tr)"

text \<open>
  After the branch on \<open>options.origin\<close> the function goes on to \<open>next()\<close> (line 97) in
  every case. A callback that completes later runs \<open>corsMdlwrOrigin\<close> after that call.
\<close>

definition corsMdlwrOptions ::
  "IncomingMessage \<Rightarrow> (jsval \<Rightarrow> trace \<Rightarrow> trace) \<Rightarrow> jsval \<Rightarrow> OriginOption Options \<Rightarrow>
     runtime \<Rightarrow> runtime" where
  "corsMdlwrOptions req next err supplied st =
     (if truthy err then st\<lparr>events := next err (events st)\<rparr>
      else
        (let options = spread (defaultsObject st) supplied in
         if truthyOriginOption (origin options) then
           (case origin options of
              Some (Callback f) \<Rightarrow>
                (case f (IncomingMessage.headers req ''origin'') of
                   Immediately e resolved \<Rightarrow>
                     st\<lparr>events :=
                          next JUndefined (corsMdlwrOrigin options req next e resolved (events st))\<rparr>
                 | Later e resolved \<Rightarrow>
                     st\<lparr>events :=
                          corsMdlwrOrigin options req next e resolved (next JUndefined (events st))\<rparr>)
            | Some (Static org) \<Rightarrow>
                st\<lparr>events :=
                     next JUndefined (corsMdlwrOrigin options req next JNull (Some org) (events st))\<rparr>
            | None \<Rightarrow> st\<lparr>events := next JUndefined (events st)\<rparr>)
         else st\<lparr>events := next JUndefined (events st)\<rparr>))"

definition corsMiddleware ::
  "CorsOpts \<Rightarrow> IncomingMessage \<Rightarrow> (jsval \<Rightarrow> trace \<Rightarrow> trace) \<Rightarrow> runtime \<Rightarrow> runtime" where
  "corsMiddleware corsOpts req next st =
     (case corsOpts of
        OptionsCallback f \<Rightarrow>
          (case f req of
             Immediately err options \<Rightarrow> corsMdlwrOptions req next err options st
           | Later err options \<Rightarrow> corsMdlwrOptions req next err options st)
      | OptionsObject options \<Rightarrow> corsMdlwrOptions req next JNull options st)"

definition expressMiddlewareFactory ::
  "CorsOpts \<Rightarrow> IncomingMessage \<Rightarrow> (jsval \<Rightarrow> trace \<Rightarrow> trace) \<Rightarrow> runtime \<Rightarrow> runtime" where
  "expressMiddlewareFactory corsOpts = corsMiddleware corsOpts"

text \<open>The continuation \<open>asyncHandlerFactory\<close> passes: it rejects on an error and resolves otherwise.\<close>

definition settle :: "jsval \<Rightarrow> trace \<Rightarrow> trace" where
  "settle err tr = (if truthy err then tr @ [Reject err] else tr @ [Resolve])"

definition asyncHandlerFactory :: "CorsOpts \<Rightarrow> IncomingMessage \<Rightarrow> runtime \<Rightarrow> runtime" where
  "asyncHandlerFactory corsOpts req st = expressMiddlewareFactory corsOpts req settle st"

section \<open>RegExp objects and successive invocations\<close>

text \<open>
  A \<open>RegExp\<close> of the configuration is an object that lives as long as the
  configuration: \<open>exec\<close> is its pattern (searching a string from an index, the index
  at which the match it finds ends), \<open>globalOrSticky\<close> says that it carries the \<open>g\<close> or
  the \<open>y\<close> flag, and \<open>lastIndex\<close> is the property of that name.
\<close>

record RegExpObject =
  exec :: "string \<Rightarrow> nat \<Rightarrow> nat option"
  globalOrSticky :: bool
  lastIndex :: nat

text \<open>
  \<open>RegExp.prototype.test\<close>: with the \<open>g\<close> or \<open>y\<close> flag the search starts at
  \<open>lastIndex\<close>, which becomes the end of the match, or 0 when there is none; without
  them the search starts at 0 and \<open>lastIndex\<close> is left as it is.
\<close>

definition test :: "RegExpObject \<Rightarrow> string \<Rightarrow> bool \<times> RegExpObject" where
  "test rx s =
     (if globalOrSticky rx then
        (if length s < lastIndex rx then (False, rx\<lparr>lastIndex := 0\<rparr>)
         else
           (case exec rx s (lastIndex rx) of
              None \<Rightarrow> (False, rx\<lparr>lastIndex := 0\<rparr>)
            | Some e \<Rightarrow> (True, rx\<lparr>lastIndex := e\<rparr>)))
      else (exec rx s 0 \<noteq> None, rx))"

text \<open>The type \<open>Origin\<close> with the \<open>RegExp\<close> objects in it.\<close>

datatype OriginEntry =
    BoolEntry bool
  | StringEntry string
  | RegExpEntry RegExpObject

datatype OriginObject =
    SingleObject OriginEntry
  | ArrayObject "OriginEntry list"

text \<open>
  \<open>allowed\<close> and \<open>isOriginAllowed\<close> (lines 167 to 193) with the objects they
  leave behind: \<open>find\<close> tests the entries in order, up to the first that allows the
  origin.
\<close>

fun allowedObject :: "string option \<Rightarrow> OriginEntry \<Rightarrow> bool \<times> OriginEntry" where
  "allowedObject requestOrigin (RegExpEntry rx) =
     (case test rx (case requestOrigin of None \<Rightarrow> ''undefined'' | Some s \<Rightarrow> s) of
        (r, rx') \<Rightarrow> (r, RegExpEntry rx'))"
| "allowedObject requestOrigin (StringEntry s) = (requestOrigin = Some s, StringEntry s)"
| "allowedObject requestOrigin (BoolEntry b) = (b, BoolEntry b)"

fun findObject ::
  "string option \<Rightarrow> OriginEntry list \<Rightarrow> OriginEntry option \<times> OriginEntry list" where
  "findObject requestOrigin [] = (None, [])"
| "findObject requestOrigin (a # as) =
     (case allowedObject requestOrigin a of
        (r, a') \<Rightarrow>
          if r then (Some a', a' # as)
          else (case findObject requestOrigin as of (found, as') \<Rightarrow> (found, a' # as')))"

fun truthyEntry :: "OriginEntry \<Rightarrow> bool" where
  "truthyEntry (BoolEntry b) = b"
| "truthyEntry (StringEntry s) = (s \<noteq> [])"
| "truthyEntry (RegExpEntry rx) = True"

fun isOriginAllowedObject :: "string option \<Rightarrow> OriginObject \<Rightarrow> bool \<times> OriginObject" where
  "isOriginAllowedObject requestOrigin (ArrayObject xs) =
     (case findObject requestOrigin xs of
        (found, xs') \<Rightarrow>
          ((case found of None \<Rightarrow> False | Some a \<Rightarrow> truthyEntry a), ArrayObject xs'))"
| "isOriginAllowedObject requestOrigin (SingleObject a) =
     (case allowedObject requestOrigin a of (r, a') \<Rightarrow> (r, SingleObject a'))"

text \<open>
  What one invocation sees of the configuration: it tests each \<open>RegExp\<close> at most once,
  so each is the predicate that its \<open>test\<close> computes from the \<open>lastIndex\<close> it has when
  the invocation starts.
\<close>

fun snapshotEntry :: "OriginEntry \<Rightarrow> OriginAtom" where
  "snapshotEntry (BoolEntry b) = B b"
| "snapshotEntry (StringEntry s) = Str s"
| "snapshotEntry (RegExpEntry rx) = RegExp (\<lambda>s. fst (test rx s))"

fun snapshot :: "OriginObject \<Rightarrow> Origin" where
  "snapshot (SingleObject a) = Single (snapshotEntry a)"
| "snapshot (ArrayObject xs) = Array (map snapshotEntry xs)"

definition resolvedOptions :: "OriginObject Options \<Rightarrow> Origin Options" where
  "resolvedOptions options =
     \<lparr> origin = map_option snapshot (origin options),
       methods = methods options,
       allowedHeaders = allowedHeaders options,
       headers = Options.headers options,
       exposedHeaders = exposedHeaders options,
       credentials = credentials options,
       maxAge = maxAge options,
       preflightContinue = preflightContinue options,
       optionsSuccessStatus = optionsSuccessStatus options \<rparr>"

text \<open>
  The origin of the configuration after \<open>originHeaders\<close>, which calls
  \<open>isOriginAllowed\<close> in its last branch only.
\<close>

definition originAfter :: "string option \<Rightarrow> OriginObject option \<Rightarrow> OriginObject option" where
  "originAfter requestOrigin org =
     (if \<not> truthyOrigin (map_option snapshot org) \<or> isStar (map_option snapshot org) then org
      else
        (case isString (map_option snapshot org) of
           Some s \<Rightarrow> org
         | None \<Rightarrow>
             (case org of
                None \<Rightarrow> None
              | Some policy \<Rightarrow> Some (snd (isOriginAllowedObject requestOrigin policy)))))"

text \<open>One invocation of \<open>corsHandler\<close>: the calls it makes, and the configuration after it.\<close>

definition corsHandlerObject ::
  "OriginObject Options \<Rightarrow> IncomingMessage \<Rightarrow> (jsval \<Rightarrow> trace \<Rightarrow> trace) \<Rightarrow> trace \<Rightarrow>
     trace \<times> OriginObject Options" where
  "corsHandlerObject options req next tr =
     (corsHandler (resolvedOptions options) req next tr,
      options\<lparr>origin := originAfter (IncomingMessage.headers req ''origin'') (origin options)\<rparr>)"

text \<open>A configuration in which no \<open>RegExp\<close> carries the \<open>g\<close> or the \<open>y\<close> flag.\<close>

fun unflaggedEntry :: "OriginEntry \<Rightarrow> bool" where
  "unflaggedEntry (RegExpEntry rx) = (\<not> globalOrSticky rx)"
| "unflaggedEntry _ = True"

fun unflagged :: "OriginObject option \<Rightarrow> bool" where
  "unflagged None = True"
| "unflagged (Some (SingleObject a)) = unflaggedEntry a"
| "unflagged (Some (ArrayObject xs)) = list_all unflaggedEntry xs"

text \<open>The pattern of a literal suffix followed by \<open>$\<close>, such as \<open>/example\.com$/\<close>.\<close>

definition suffixExec :: "string \<Rightarrow> string \<Rightarrow> nat \<Rightarrow> nat option" where
  "suffixExec suffix s i =
     (if i + length suffix \<le> length s \<and> endsWith suffix s then Some (length s) else None)"

section \<open>Properties\<close>

subsection \<open>Traces\<close>

lemma headerValues_append:
  "headerValues name (xs @ ys) = headerValues name xs @ headerValues name ys"
  by (induction name xs rule: headerValues.induct) simp_all

lemma varyFields_append: "varyFields (xs @ ys) = varyFields xs @ varyFields ys"
  by (induction xs rule: varyFields.induct) simp_all

lemma nextCalls_append: "nextCalls (xs @ ys) = nextCalls xs @ nextCalls ys"
  by (induction xs rule: nextCalls.induct) simp_all

lemma statusCodes_append: "statusCodes (xs @ ys) = statusCodes xs @ statusCodes ys"
  by (induction xs rule: statusCodes.induct) simp_all

lemma responseCalls_append: "responseCalls (xs @ ys) = responseCalls xs @ responseCalls ys"
  by (simp add: responseCalls_def)

lemma reflectOrDeny_append:
  "reflectOrDeny ro policy tr = tr @ reflectOrDeny ro policy []"
  by (simp add: reflectOrDeny_def setHeader_def vary_def split: option.splits)

lemma originHeaders_append:
  "originHeaders options req tr = tr @ originHeaders options req []"
  using reflectOrDeny_append [of "IncomingMessage.headers req ''origin''" _ tr]
  by (simp add: originHeaders_def Let_def setHeader_def vary_def split: option.splits)

lemma credentialsHeaders_append:
  "credentialsHeaders options tr = tr @ credentialsHeaders options []"
  by (simp add: credentialsHeaders_def setHeader_def)

lemma methodsHeaders_append:
  "methodsHeaders options tr = tr @ methodsHeaders options []"
  by (simp add: methodsHeaders_def setHeader_def split: option.splits)

lemma allowedHeadersFn_append:
  "allowedHeadersFn options req tr = tr @ allowedHeadersFn options req []"
  by (simp add: allowedHeadersFn_def Let_def setHeader_def vary_def split: option.splits)

lemma cacheHeaders_append:
  "cacheHeaders options tr = tr @ cacheHeaders options []"
  by (simp add: cacheHeaders_def setHeader_def split: option.splits)

lemma exposedHeadersFn_append:
  "exposedHeadersFn options tr = tr @ exposedHeadersFn options []"
  by (simp add: exposedHeadersFn_def setHeader_def split: option.splits)

lemma corsHandler_preflight:
  assumes "isPreflight req"
  shows "corsHandler options req hostNext tr =
     tr @ originHeaders options req [] @ credentialsHeaders options [] @
       methodsHeaders options [] @ allowedHeadersFn options req [] @
       cacheHeaders options [] @ exposedHeadersFn options [] @
       (if preflightContinue options = Some True then [Next JUndefined]
        else [SetStatusCode (optionsSuccessStatus options), SetHeader ''Content-Length'' ''0'', End])"
proof -
  let ?o = "originHeaders options req []"
  let ?c = "credentialsHeaders options []"
  let ?m = "methodsHeaders options []"
  let ?a = "allowedHeadersFn options req []"
  let ?x = "cacheHeaders options []"
  let ?e = "exposedHeadersFn options []"
  have 1: "originHeaders options req tr = tr @ ?o"
    by (rule originHeaders_append)
  have 2: "credentialsHeaders options (tr @ ?o) = tr @ ?o @ ?c"
    using credentialsHeaders_append [of options "tr @ ?o"] by simp
  have 3: "methodsHeaders options (tr @ ?o @ ?c) = tr @ ?o @ ?c @ ?m"
    using methodsHeaders_append [of options "tr @ ?o @ ?c"] by simp
  have 4: "allowedHeadersFn options req (tr @ ?o @ ?c @ ?m) = tr @ ?o @ ?c @ ?m @ ?a"
    using allowedHeadersFn_append [of options req "tr @ ?o @ ?c @ ?m"] by simp
  have 5: "cacheHeaders options (tr @ ?o @ ?c @ ?m @ ?a) = tr @ ?o @ ?c @ ?m @ ?a @ ?x"
    using cacheHeaders_append [of options "tr @ ?o @ ?c @ ?m @ ?a"] by simp
  have 6: "exposedHeadersFn options (tr @ ?o @ ?c @ ?m @ ?a @ ?x) = tr @ ?o @ ?c @ ?m @ ?a @ ?x @ ?e"
    using exposedHeadersFn_append [of options "tr @ ?o @ ?c @ ?m @ ?a @ ?x"] by simp
  show ?thesis
    using assms
    by (simp add: corsHandler_def 1 2 3 4 5 6 hostNext_def end_response_def setHeader_def
        setStatusCode_def)
qed

lemma corsHandler_actual:
  assumes "\<not> isPreflight req"
  shows "corsHandler options req hostNext tr =
     tr @ originHeaders options req [] @ credentialsHeaders options [] @
       exposedHeadersFn options [] @ [Next JUndefined]"
proof -
  let ?o = "originHeaders options req []"
  let ?c = "credentialsHeaders options []"
  let ?e = "exposedHeadersFn options []"
  have 1: "originHeaders options req tr = tr @ ?o"
    by (rule originHeaders_append)
  have 2: "credentialsHeaders options (tr @ ?o) = tr @ ?o @ ?c"
    using credentialsHeaders_append [of options "tr @ ?o"] by simp
  have 3: "exposedHeadersFn options (tr @ ?o @ ?c) = tr @ ?o @ ?c @ ?e"
    using exposedHeadersFn_append [of options "tr @ ?o @ ?c"] by simp
  show ?thesis
    using assms by (simp add: corsHandler_def 1 2 3 hostNext_def)
qed


lemma headerCalls_only:
  assumes "list_all isHeaderCall hs"
  shows "statusCodes hs = []" and "nextCalls hs = []" and "End \<notin> set hs"
  using assms
  by (induction hs rule: statusCodes.induct) simp_all

lemma originHeaders_calls: "list_all isHeaderCall (originHeaders options req [])"
  by (simp add: originHeaders_def reflectOrDeny_def Let_def setHeader_def vary_def
      split: option.splits)

lemma credentialsHeaders_calls: "list_all isHeaderCall (credentialsHeaders options [])"
  by (simp add: credentialsHeaders_def setHeader_def)

lemma methodsHeaders_calls: "list_all isHeaderCall (methodsHeaders options [])"
  by (simp add: methodsHeaders_def setHeader_def split: option.splits)

lemma allowedHeadersFn_calls: "list_all isHeaderCall (allowedHeadersFn options req [])"
  by (simp add: allowedHeadersFn_def Let_def setHeader_def vary_def split: option.splits)

lemma cacheHeaders_calls: "list_all isHeaderCall (cacheHeaders options [])"
  by (simp add: cacheHeaders_def setHeader_def split: option.splits)

lemma exposedHeadersFn_calls: "list_all isHeaderCall (exposedHeadersFn options [])"
  by (simp add: exposedHeadersFn_def setHeader_def split: option.splits)

text \<open>Which header each policy function sets.\<close>

lemma originHeaders_sets:
  "name \<noteq> ''Access-Control-Allow-Origin'' \<Longrightarrow>
   headerValues name (originHeaders options req []) = []"
  by (simp add: originHeaders_def reflectOrDeny_def Let_def setHeader_def vary_def
      split: option.splits)

lemma credentialsHeaders_sets:
  "name \<noteq> ''Access-Control-Allow-Credentials'' \<Longrightarrow>
   headerValues name (credentialsHeaders options []) = []"
  by (simp add: credentialsHeaders_def setHeader_def)

lemma methodsHeaders_sets:
  "name \<noteq> ''Access-Control-Allow-Methods'' \<Longrightarrow>
   headerValues name (methodsHeaders options []) = []"
  by (simp add: methodsHeaders_def setHeader_def split: option.splits)

lemma allowedHeadersFn_sets:
  "name \<noteq> ''Access-Control-Allow-Headers'' \<Longrightarrow>
   headerValues name (allowedHeadersFn options req []) = []"
  by (simp add: allowedHeadersFn_def Let_def setHeader_def vary_def split: option.splits)

lemma cacheHeaders_sets:
  "name \<noteq> ''Access-Control-Max-Age'' \<Longrightarrow>
   headerValues name (cacheHeaders options []) = []"
  by (simp add: cacheHeaders_def setHeader_def split: option.splits)

lemma exposedHeadersFn_sets:
  "name \<noteq> ''Access-Control-Expose-Headers'' \<Longrightarrow>
   headerValues name (exposedHeadersFn options []) = []"
  by (simp add: exposedHeadersFn_def setHeader_def split: option.splits)

lemma varyFields_originHeaders:
  "set (varyFields (originHeaders options req [])) \<subseteq> {''Origin''}"
  by (simp add: originHeaders_def reflectOrDeny_def Let_def setHeader_def vary_def
      split: option.splits)

lemma varyFields_credentialsHeaders: "varyFields (credentialsHeaders options []) = []"
  by (simp add: credentialsHeaders_def setHeader_def)

lemma varyFields_methodsHeaders: "varyFields (methodsHeaders options []) = []"
  by (simp add: methodsHeaders_def setHeader_def split: option.splits)

lemma varyFields_cacheHeaders: "varyFields (cacheHeaders options []) = []"
  by (simp add: cacheHeaders_def setHeader_def split: option.splits)

lemma varyFields_exposedHeadersFn: "varyFields (exposedHeadersFn options []) = []"
  by (simp add: exposedHeadersFn_def setHeader_def split: option.splits)

lemma allowedHeadersFn_cases:
  "allowedHeadersFn options req [] =
     (case configuredHeaders options of
        Some (L xs) \<Rightarrow>
          if join '','' xs \<noteq> [] then [SetHeader ''Access-Control-Allow-Headers'' (join '','' xs)]
          else []
      | Some (S s) \<Rightarrow>
          if s \<noteq> [] then [SetHeader ''Access-Control-Allow-Headers'' s]
          else (case IncomingMessage.headers req ''access-control-request-headers'' of
                  None \<Rightarrow> []
                | Some v \<Rightarrow>
                    if v \<noteq> [] then [Vary ''Access-Control-Request-Headers'',
                                      SetHeader ''Access-Control-Allow-Headers'' v]
                    else [])
      | None \<Rightarrow>
          (case IncomingMessage.headers req ''access-control-request-headers'' of
             None \<Rightarrow> []
           | Some v \<Rightarrow>
               if v \<noteq> [] then [Vary ''Access-Control-Request-Headers'',
                                 SetHeader ''Access-Control-Allow-Headers'' v]
               else []))"
  by (simp add: allowedHeadersFn_def Let_def setHeader_def vary_def
      split: option.splits StringOrArray.splits)

lemma natToString_not_empty: "natToString n \<noteq> []"
  by (subst natToString.simps) simp

lemma numberToString_not_empty: "numberToString i \<noteq> []"
  by (simp add: numberToString_def natToString_not_empty)

lemma isPreflight_method:
  "method' req = Some m \<Longrightarrow> toUpperCase m = ''OPTIONS'' \<Longrightarrow> isPreflight req"
  by (auto simp: isPreflight_def toUpperCase_def)

subsection \<open>The origin policy\<close>

lemma isOriginAllowed_Array:
  assumes "v \<noteq> []"
  shows "isOriginAllowed (Some v) (Array xs) = (\<exists>a\<in>set xs. allowed (Some v) a)"
proof (induction xs)
  case Nil
  show ?case by simp
next
  case (Cons x xs)
  have "allowed (Some v) x \<Longrightarrow> truthyAtom x"
    using assms by (cases x) auto
  with Cons show ?case by auto
qed

lemma allowed_cases:
  "allowed (Some v) a = (case a of B b \<Rightarrow> b | Str s \<Rightarrow> s = v | RegExp r \<Rightarrow> r v)"
  by (cases a) auto

lemma headerValues_corsHandler_origin:
  "headerValues ''Access-Control-Allow-Origin'' (corsHandler options req hostNext []) =
   headerValues ''Access-Control-Allow-Origin'' (originHeaders options req [])"
  by (cases "isPreflight req")
    (simp_all add: corsHandler_preflight corsHandler_actual headerValues_append
      credentialsHeaders_sets methodsHeaders_sets allowedHeadersFn_sets cacheHeaders_sets
      exposedHeadersFn_sets)

lemma varyFields_corsHandler_origin:
  "set (varyFields (originHeaders options req [])) \<subseteq>
   set (varyFields (corsHandler options req hostNext []))"
  by (cases "isPreflight req")
    (simp_all add: corsHandler_preflight corsHandler_actual varyFields_append)

text \<open>
  C3, amended. For a request whose \<open>Origin\<close> header is present and not empty, and an
  origin policy that is a \<open>RegExp\<close> or an array: when an entry matches the request's
  origin (a string that is equal to it, a \<open>RegExp\<close> whose \<open>test\<close> accepts it, the
  boolean \<open>true\<close>), \<open>Access-Control-Allow-Origin\<close> is set once, to the request's
  origin, and \<open>Origin\<close> is appended to \<open>Vary\<close>; when no entry matches,
  \<open>Access-Control-Allow-Origin\<close> is not set. A single \<open>RegExp\<close> is the array of
  that one entry.
\<close>

theorem origin_reflected_when_matched:
  assumes "IncomingMessage.headers req ''origin'' = Some v" and "v \<noteq> []"
    and "origin options = Some (Array xs)
         \<or> (\<exists>r. origin options = Some (Single (RegExp r)) \<and> xs = [RegExp r])"
  shows "headerValues ''Access-Control-Allow-Origin'' (corsHandler options req hostNext []) =
           (if \<exists>a\<in>set xs. case a of B b \<Rightarrow> b | Str s \<Rightarrow> s = v | RegExp r \<Rightarrow> r v
            then [v] else [])
         \<and> ((\<exists>a\<in>set xs. case a of B b \<Rightarrow> b | Str s \<Rightarrow> s = v | RegExp r \<Rightarrow> r v)
              \<longrightarrow> ''Origin'' \<in> set (varyFields (corsHandler options req hostNext [])))"
proof -
  let ?m = "\<exists>a\<in>set xs. case a of B b \<Rightarrow> b | Str s \<Rightarrow> s = v | RegExp r \<Rightarrow> r v"
  have m: "?m = (\<exists>a\<in>set xs. allowed (Some v) a)"
    by (simp add: allowed_cases)
  have o: "originHeaders options req [] =
      (if ?m then [Vary ''Origin'', SetHeader ''Access-Control-Allow-Origin'' v] else [])"
    using assms(3)
  proof
    assume "origin options = Some (Array xs)"
    then show ?thesis
      using assms(1,2)
      by (simp add: originHeaders_def reflectOrDeny_def Let_def setHeader_def vary_def
          isOriginAllowed_Array m del: isOriginAllowed.simps)
  next
    assume "\<exists>r. origin options = Some (Single (RegExp r)) \<and> xs = [RegExp r]"
    then show ?thesis
      using assms(1,2)
      by (auto simp: originHeaders_def reflectOrDeny_def Let_def setHeader_def vary_def)
  qed
  have 1: "headerValues ''Access-Control-Allow-Origin'' (corsHandler options req hostNext []) =
      (if ?m then [v] else [])"
    by (simp add: headerValues_corsHandler_origin o)
  have 2: "?m \<longrightarrow> ''Origin'' \<in> set (varyFields (corsHandler options req hostNext []))"
  proof
    assume ?m
    then have "''Origin'' \<in> set (varyFields (originHeaders options req []))"
      by (simp add: o)
    then show "''Origin'' \<in> set (varyFields (corsHandler options req hostNext []))"
      using varyFields_corsHandler_origin [of options req] by blast
  qed
  show ?thesis using 1 2 by blast
qed

theorem origin_reflected_when_matched_witness:
  "IncomingMessage.headers
     \<lparr> method' = Some ''GET'', headers = [''origin'' \<mapsto> ''http://x.b.com''] \<rparr> ''origin'' =
     Some ''http://x.b.com''
   \<and> origin (withOrigin defaults (Some (Array [Str ''http://a.com'', RegExp (endsWith ''.b.com'')])))
       = Some (Array [Str ''http://a.com'', RegExp (endsWith ''.b.com'')])
   \<and> headerValues ''Access-Control-Allow-Origin''
        (corsHandler
          (withOrigin defaults (Some (Array [Str ''http://a.com'', RegExp (endsWith ''.b.com'')])))
          \<lparr> method' = Some ''GET'', headers = [''origin'' \<mapsto> ''http://x.b.com''] \<rparr>
          hostNext []) = [''http://x.b.com'']
   \<and> ''Origin'' \<in> set (varyFields
        (corsHandler
          (withOrigin defaults (Some (Array [Str ''http://a.com'', RegExp (endsWith ''.b.com'')])))
          \<lparr> method' = Some ''GET'', headers = [''origin'' \<mapsto> ''http://x.b.com''] \<rparr>
          hostNext []))
   \<and> headerValues ''Access-Control-Allow-Origin''
        (corsHandler
          (withOrigin defaults (Some (Array [Str ''http://a.com'', RegExp (endsWith ''.b.com'')])))
          \<lparr> method' = Some ''GET'', headers = [''origin'' \<mapsto> ''http://evil.com''] \<rparr>
          hostNext []) = []"
  using origin_reflected_when_matched
    [of "\<lparr> method' = Some ''GET'', headers = [''origin'' \<mapsto> ''http://x.b.com''] \<rparr>"
        "''http://x.b.com''"
        "withOrigin defaults (Some (Array [Str ''http://a.com'', RegExp (endsWith ''.b.com'')]))"
        "[Str ''http://a.com'', RegExp (endsWith ''.b.com'')]"]
    origin_reflected_when_matched
    [of "\<lparr> method' = Some ''GET'', headers = [''origin'' \<mapsto> ''http://evil.com''] \<rparr>"
        "''http://evil.com''"
        "withOrigin defaults (Some (Array [Str ''http://a.com'', RegExp (endsWith ''.b.com'')]))"
        "[Str ''http://a.com'', RegExp (endsWith ''.b.com'')]"]
  by (simp add: withOrigin_def endsWith_def)

text \<open>
  C3, as stated, fails for a request whose \<open>Origin\<close> header is present and empty:
  the pattern \<open>/.*/\<close> matches the empty origin, and \<open>originHeaders\<close> sets no
  \<open>Access-Control-Allow-Origin\<close>, since \<open>isOriginAllowed(...) && requestOrigin\<close> is the
  empty string, which is falsy.
\<close>

theorem empty_origin_not_reflected:
  "IncomingMessage.headers \<lparr> method' = Some ''GET'', headers = [''origin'' \<mapsto> ''''] \<rparr> ''origin''
     = Some ''''
   \<and> allowed (Some '''') (RegExp matchAny)
   \<and> headerValues ''Access-Control-Allow-Origin''
        (corsHandler (withOrigin defaults (Some (Single (RegExp matchAny))))
          \<lparr> method' = Some ''GET'', headers = [''origin'' \<mapsto> ''''] \<rparr> hostNext []) = []"
  by (simp add: headerValues_corsHandler_origin originHeaders_def reflectOrDeny_def
      withOrigin_def matchAny_def)

text \<open>
  C10. For a request whose \<open>Origin\<close> header is absent or empty, and an origin policy
  that is a \<open>RegExp\<close> or an array, \<open>Access-Control-Allow-Origin\<close> is never set,
  whether or not an entry matches the absent origin (a \<open>RegExp\<close> is tested against the
  string \<open>"undefined"\<close>).
\<close>

theorem absent_origin_never_reflected:
  assumes "IncomingMessage.headers req ''origin'' = None
           \<or> IncomingMessage.headers req ''origin'' = Some []"
    and "origin options = Some (Array xs) \<or> origin options = Some (Single (RegExp r))"
  shows "headerValues ''Access-Control-Allow-Origin'' (corsHandler options req hostNext []) = []"
proof -
  have "originHeaders options req [] = []"
    using assms
    by (auto simp: originHeaders_def reflectOrDeny_def Let_def split: option.splits)
  then show ?thesis
    by (simp add: headerValues_corsHandler_origin)
qed

theorem absent_origin_never_reflected_witness:
  "IncomingMessage.headers \<lparr> method' = Some ''GET'', headers = Map.empty \<rparr> ''origin'' = None
   \<and> allowed (IncomingMessage.headers \<lparr> method' = Some ''GET'', headers = Map.empty \<rparr> ''origin'')
        (RegExp matchAny)
   \<and> headerValues ''Access-Control-Allow-Origin''
        (corsHandler (withOrigin defaults (Some (Single (RegExp matchAny))))
          \<lparr> method' = Some ''GET'', headers = Map.empty \<rparr> hostNext []) = []"
  using absent_origin_never_reflected
    [of "\<lparr> method' = Some ''GET'', headers = Map.empty \<rparr>"
        "withOrigin defaults (Some (Single (RegExp matchAny)))" "[]" matchAny]
  by (simp add: withOrigin_def matchAny_def)

subsection \<open>The origin resolver\<close>

lemma spread_origin_supplied:
  "origin supplied = Some v \<Longrightarrow> origin (spread d supplied) = Some v"
  by (simp add: spread_def spreadProperty_def)

lemma corsMdlwrOptions_callback:
  assumes "\<not> truthy e" and "origin supplied = Some (Callback f)"
  shows "events (corsMdlwrOptions req hostNext e supplied st) =
     (case f (IncomingMessage.headers req ''origin'') of
        Immediately err resolved \<Rightarrow>
          (if truthy err \<or> \<not> truthyOrigin resolved
           then events st @ [Next err, Next JUndefined]
           else corsHandler (withOrigin (spread (defaultsObject st) supplied) resolved) req hostNext
                  (events st) @ [Next JUndefined])
      | Later err resolved \<Rightarrow>
          (if truthy err \<or> \<not> truthyOrigin resolved
           then events st @ [Next JUndefined, Next err]
           else corsHandler (withOrigin (spread (defaultsObject st) supplied) resolved) req hostNext
                  (events st @ [Next JUndefined])))"
  using assms
  by (simp add: corsMdlwrOptions_def Let_def spread_origin_supplied corsMdlwrOrigin_def
      hostNext_def split: completion.splits)

text \<open>
  C4. The configuration, given as an object or yielded without error by a configuration
  function, has a function as its \<open>origin\<close>. When that function yields an error, the
  continuation is called with that very value and no call is made on the response. When
  it yields no error and a falsy origin, the continuation is called, every call of it
  carries a falsy argument, and no call is made on the response.
\<close>

theorem origin_resolver_error_or_denial:
  assumes "events st = []"
    and "corsOpts = OptionsObject supplied
         \<or> (\<exists>g e. corsOpts = OptionsCallback g \<and> \<not> truthy e
               \<and> (g req = Immediately e supplied \<or> g req = Later e supplied))"
    and "origin supplied = Some (Callback f)"
    and "f (IncomingMessage.headers req ''origin'') = Immediately err resolved
         \<or> f (IncomingMessage.headers req ''origin'') = Later err resolved"
  shows "(truthy err \<longrightarrow>
            err \<in> set (nextCalls (events (corsMiddleware corsOpts req hostNext st)))
            \<and> responseCalls (events (corsMiddleware corsOpts req hostNext st)) = [])
       \<and> (\<not> truthy err \<and> \<not> truthyOrigin resolved \<longrightarrow>
            nextCalls (events (corsMiddleware corsOpts req hostNext st)) \<noteq> []
            \<and> list_all (\<lambda>v. \<not> truthy v) (nextCalls (events (corsMiddleware corsOpts req hostNext st)))
            \<and> responseCalls (events (corsMiddleware corsOpts req hostNext st)) = [])"
proof -
  have "\<exists>e. \<not> truthy e
      \<and> corsMiddleware corsOpts req hostNext st = corsMdlwrOptions req hostNext e supplied st"
    using assms(2)
  proof
    assume "corsOpts = OptionsObject supplied"
    then have "\<not> truthy JNull
        \<and> corsMiddleware corsOpts req hostNext st = corsMdlwrOptions req hostNext JNull supplied st"
      by (simp add: corsMiddleware_def)
    then show ?thesis ..
  next
    assume "\<exists>g e. corsOpts = OptionsCallback g \<and> \<not> truthy e
               \<and> (g req = Immediately e supplied \<or> g req = Later e supplied)"
    then obtain g e where "corsOpts = OptionsCallback g" and e: "\<not> truthy e"
      and "g req = Immediately e supplied \<or> g req = Later e supplied"
      by blast
    then have "corsMiddleware corsOpts req hostNext st = corsMdlwrOptions req hostNext e supplied st"
      by (auto simp: corsMiddleware_def)
    with e show ?thesis by blast
  qed
  then obtain e where e: "\<not> truthy e"
    and run: "corsMiddleware corsOpts req hostNext st = corsMdlwrOptions req hostNext e supplied st"
    by blast
  note tr = corsMdlwrOptions_callback [OF e assms(3), of req st]
  show ?thesis
    using assms(4)
  proof
    assume "f (IncomingMessage.headers req ''origin'') = Immediately err resolved"
    then show ?thesis
      by (simp add: run tr assms(1) responseCalls_def)
  next
    assume "f (IncomingMessage.headers req ''origin'') = Later err resolved"
    then show ?thesis
      by (simp add: run tr assms(1) responseCalls_def)
  qed
qed

theorem origin_resolver_error_or_denial_witness:
  "truthy (JObject ''Error: lookup failed'')
   \<and> JObject ''Error: lookup failed'' \<in> set (nextCalls (events (corsMiddleware
        (OptionsObject (defaults\<lparr>origin :=
           Some (Callback (\<lambda>requestOrigin. Immediately (JObject ''Error: lookup failed'') None))\<rparr>))
        \<lparr> method' = Some ''GET'', headers = [''origin'' \<mapsto> ''http://a.com''] \<rparr> hostNext initial)))
   \<and> responseCalls (events (corsMiddleware
        (OptionsObject (defaults\<lparr>origin :=
           Some (Callback (\<lambda>requestOrigin. Immediately (JObject ''Error: lookup failed'') None))\<rparr>))
        \<lparr> method' = Some ''GET'', headers = [''origin'' \<mapsto> ''http://a.com''] \<rparr> hostNext initial)) = []
   \<and> \<not> truthy JNull \<and> \<not> truthyOrigin (Some (Single (B False)))
   \<and> nextCalls (events (corsMiddleware
        (OptionsCallback (\<lambda>req. Later JNull (defaults\<lparr>origin :=
           Some (Callback (\<lambda>requestOrigin. Later JNull (Some (Single (B False)))))\<rparr>)))
        \<lparr> method' = Some ''OPTIONS'', headers = [''origin'' \<mapsto> ''http://a.com''] \<rparr> hostNext initial))
       \<noteq> []
   \<and> list_all (\<lambda>v. \<not> truthy v) (nextCalls (events (corsMiddleware
        (OptionsCallback (\<lambda>req. Later JNull (defaults\<lparr>origin :=
           Some (Callback (\<lambda>requestOrigin. Later JNull (Some (Single (B False)))))\<rparr>)))
        \<lparr> method' = Some ''OPTIONS'', headers = [''origin'' \<mapsto> ''http://a.com''] \<rparr> hostNext initial)))
   \<and> responseCalls (events (corsMiddleware
        (OptionsCallback (\<lambda>req. Later JNull (defaults\<lparr>origin :=
           Some (Callback (\<lambda>requestOrigin. Later JNull (Some (Single (B False)))))\<rparr>)))
        \<lparr> method' = Some ''OPTIONS'', headers = [''origin'' \<mapsto> ''http://a.com''] \<rparr> hostNext initial)) = []"
  using origin_resolver_error_or_denial
    [of initial
      "OptionsObject (defaults\<lparr>origin :=
           Some (Callback (\<lambda>requestOrigin. Immediately (JObject ''Error: lookup failed'') None))\<rparr>)"
      "defaults\<lparr>origin :=
           Some (Callback (\<lambda>requestOrigin. Immediately (JObject ''Error: lookup failed'') None))\<rparr>"
      "\<lparr> method' = Some ''GET'', headers = [''origin'' \<mapsto> ''http://a.com''] \<rparr>"
      "\<lambda>requestOrigin. Immediately (JObject ''Error: lookup failed'') None"
      "JObject ''Error: lookup failed''" None]
    origin_resolver_error_or_denial
    [of initial
      "OptionsCallback (\<lambda>req. Later JNull (defaults\<lparr>origin :=
           Some (Callback (\<lambda>requestOrigin. Later JNull (Some (Single (B False)))))\<rparr>))"
      "defaults\<lparr>origin :=
           Some (Callback (\<lambda>requestOrigin. Later JNull (Some (Single (B False)))))\<rparr>"
      "\<lparr> method' = Some ''OPTIONS'', headers = [''origin'' \<mapsto> ''http://a.com''] \<rparr>"
      "\<lambda>requestOrigin. Later JNull (Some (Single (B False)))"
      JNull "Some (Single (B False))"]
  by (simp add: initial_def)

subsection \<open>The preflight response\<close>

lemma responseCalls_headerCalls:
  "list_all isHeaderCall hs \<Longrightarrow> responseCalls hs = hs"
proof (induction hs)
  case Nil
  show ?case by (simp add: responseCalls_def)
next
  case (Cons e hs)
  then show ?case by (cases e) (simp_all add: responseCalls_def)
qed

lemma corsHandler_short_circuit:
  assumes "isPreflight req" and "preflightContinue options \<noteq> Some True"
  shows "\<exists>hs. corsHandler options req hostNext tr =
            tr @ hs @ [SetStatusCode (optionsSuccessStatus options),
                       SetHeader ''Content-Length'' ''0'', End]
          \<and> list_all isHeaderCall hs \<and> headerValues ''Content-Length'' hs = []"
proof -
  let ?hs = "originHeaders options req [] @ credentialsHeaders options [] @
       methodsHeaders options [] @ allowedHeadersFn options req [] @
       cacheHeaders options [] @ exposedHeadersFn options []"
  have "corsHandler options req hostNext tr =
      tr @ ?hs @ [SetStatusCode (optionsSuccessStatus options),
                  SetHeader ''Content-Length'' ''0'', End]"
    using assms(2) by (simp add: corsHandler_preflight [OF assms(1)])
  moreover have "list_all isHeaderCall ?hs"
    by (simp add: originHeaders_calls credentialsHeaders_calls methodsHeaders_calls
        allowedHeadersFn_calls cacheHeaders_calls exposedHeadersFn_calls)
  moreover have "headerValues ''Content-Length'' ?hs = []"
    by (simp add: headerValues_append originHeaders_sets credentialsHeaders_sets
        methodsHeaders_sets allowedHeadersFn_sets cacheHeaders_sets exposedHeadersFn_sets)
  ultimately show ?thesis
    by blast
qed

lemma corsMiddleware_resolved:
  assumes "corsOpts = OptionsObject supplied
         \<or> (\<exists>g e. corsOpts = OptionsCallback g \<and> \<not> truthy e
               \<and> (g req = Immediately e supplied \<or> g req = Later e supplied))"
  shows "\<exists>e. \<not> truthy e
      \<and> corsMiddleware corsOpts req next st = corsMdlwrOptions req next e supplied st"
  using assms
proof
  assume "corsOpts = OptionsObject supplied"
  then have "\<not> truthy JNull
      \<and> corsMiddleware corsOpts req next st = corsMdlwrOptions req next JNull supplied st"
    by (simp add: corsMiddleware_def)
  then show ?thesis ..
next
  assume "\<exists>g e. corsOpts = OptionsCallback g \<and> \<not> truthy e
             \<and> (g req = Immediately e supplied \<or> g req = Later e supplied)"
  then obtain g e where "corsOpts = OptionsCallback g" and e: "\<not> truthy e"
    and "g req = Immediately e supplied \<or> g req = Later e supplied"
    by blast
  then have "corsMiddleware corsOpts req next st = corsMdlwrOptions req next e supplied st"
    by (auto simp: corsMiddleware_def)
  with e show ?thesis by blast
qed

lemma corsMdlwrOptions_reaches_handler:
  assumes "\<not> truthy e"
    and "origin supplied = None \<and> resolved = Single (Str ''*'')
         \<or> origin supplied = Some (Static resolved) \<and> truthyOrigin (Some resolved)
         \<or> (\<exists>f e'. origin supplied = Some (Callback f) \<and> \<not> truthy e'
               \<and> truthyOrigin (Some resolved)
               \<and> (f (IncomingMessage.headers req ''origin'') = Immediately e' (Some resolved)
                  \<or> f (IncomingMessage.headers req ''origin'') = Later e' (Some resolved)))"
  shows "events (corsMdlwrOptions req hostNext e supplied initial) =
           corsHandler (withOrigin (spread defaults supplied) (Some resolved)) req hostNext []
             @ [Next JUndefined]
       \<or> events (corsMdlwrOptions req hostNext e supplied initial) =
           corsHandler (withOrigin (spread defaults supplied) (Some resolved)) req hostNext
             [Next JUndefined]"
  using assms(2)
proof (elim disjE)
  assume "origin supplied = None \<and> resolved = Single (Str ''*'')"
  then show ?thesis
    using assms(1)
    by (simp add: corsMdlwrOptions_def corsMdlwrOrigin_def Let_def initial_def hostNext_def
        spread_def spreadProperty_def defaults_def)
next
  assume "origin supplied = Some (Static resolved) \<and> truthyOrigin (Some resolved)"
  then show ?thesis
    using assms(1)
    by (simp add: corsMdlwrOptions_def corsMdlwrOrigin_def Let_def initial_def hostNext_def
        spread_origin_supplied)
next
  assume "\<exists>f e'. origin supplied = Some (Callback f) \<and> \<not> truthy e'
               \<and> truthyOrigin (Some resolved)
               \<and> (f (IncomingMessage.headers req ''origin'') = Immediately e' (Some resolved)
                  \<or> f (IncomingMessage.headers req ''origin'') = Later e' (Some resolved))"
  then obtain f e' where f: "origin supplied = Some (Callback f)" and e': "\<not> truthy e'"
    and r: "truthyOrigin (Some resolved)"
    and y: "f (IncomingMessage.headers req ''origin'') = Immediately e' (Some resolved)
          \<or> f (IncomingMessage.headers req ''origin'') = Later e' (Some resolved)"
    by blast
  from y show ?thesis
    using corsMdlwrOptions_callback [OF assms(1) f, of req initial] e' r
    by (auto simp: initial_def)
qed

text \<open>
  C2, amended. The configuration is an object, or is yielded without error by a
  configuration function; \<open>preflightContinue\<close> is not true in it; and its origin is
  absent (the default \<open>"*"\<close>), or a truthy value, or a function that yields no error and
  a truthy value. Then, for a request whose method is \<open>OPTIONS\<close> in any letter case,
  the calls \<open>corsMiddleware\<close> makes on the response are calls that set headers other
  than \<open>Content-Length\<close> or append to \<open>Vary\<close>, followed by: the status code set to
  the configured \<open>optionsSuccessStatus\<close>, or to 204 when none is configured;
  \<open>Content-Length\<close> set to \<open>"0"\<close>; and \<open>res.end()\<close>, which writes no body.
\<close>

theorem middleware_preflight_short_circuit:
  assumes "method' req = Some m" and "toUpperCase m = ''OPTIONS''"
    and "preflightContinue supplied \<noteq> Some True"
    and "corsOpts = OptionsObject supplied
         \<or> (\<exists>g e. corsOpts = OptionsCallback g \<and> \<not> truthy e
               \<and> (g req = Immediately e supplied \<or> g req = Later e supplied))"
    and "origin supplied = None \<and> resolved = Single (Str ''*'')
         \<or> origin supplied = Some (Static resolved) \<and> truthyOrigin (Some resolved)
         \<or> (\<exists>f e'. origin supplied = Some (Callback f) \<and> \<not> truthy e'
               \<and> truthyOrigin (Some resolved)
               \<and> (f (IncomingMessage.headers req ''origin'') = Immediately e' (Some resolved)
                  \<or> f (IncomingMessage.headers req ''origin'') = Later e' (Some resolved)))"
  shows "\<exists>hs. responseCalls (events (corsMiddleware corsOpts req hostNext initial)) =
            hs @ [SetStatusCode
                    (case optionsSuccessStatus supplied of None \<Rightarrow> Some 204 | Some c \<Rightarrow> Some c),
                  SetHeader ''Content-Length'' ''0'', End]
          \<and> list_all isHeaderCall hs \<and> headerValues ''Content-Length'' hs = []"
proof -
  let ?options = "withOrigin (spread defaults supplied) (Some resolved)"
  let ?hs = "originHeaders ?options req [] @ credentialsHeaders ?options [] @
       methodsHeaders ?options [] @ allowedHeadersFn ?options req [] @
       cacheHeaders ?options [] @ exposedHeadersFn ?options []"
  let ?status = "case optionsSuccessStatus supplied of None \<Rightarrow> Some 204 | Some c \<Rightarrow> Some c"
  let ?fin = "[SetStatusCode ?status, SetHeader ''Content-Length'' ''0'', End]"
  have pre: "isPreflight req"
    using assms(1,2) by (rule isPreflight_method)
  have continue: "preflightContinue ?options \<noteq> Some True"
    using assms(3)
    by (cases "preflightContinue supplied")
      (simp_all add: withOrigin_def spread_def spreadProperty_def defaults_def)
  have status: "optionsSuccessStatus ?options = ?status"
    by (simp add: withOrigin_def spread_def spreadProperty_def defaults_def)
  have handler: "corsHandler ?options req hostNext tr = tr @ ?hs @ ?fin" for tr
    using continue by (simp add: corsHandler_preflight [OF pre] status)
  have calls: "list_all isHeaderCall ?hs"
    by (simp add: originHeaders_calls credentialsHeaders_calls methodsHeaders_calls
        allowedHeadersFn_calls cacheHeaders_calls exposedHeadersFn_calls)
  have len: "headerValues ''Content-Length'' ?hs = []"
    by (simp add: headerValues_append originHeaders_sets credentialsHeaders_sets
        methodsHeaders_sets allowedHeadersFn_sets cacheHeaders_sets exposedHeadersFn_sets)
  obtain e where e: "\<not> truthy e"
    and run: "corsMiddleware corsOpts req hostNext initial =
        corsMdlwrOptions req hostNext e supplied initial"
    using corsMiddleware_resolved [OF assms(4)] by blast
  have "events (corsMiddleware corsOpts req hostNext initial) = (?hs @ ?fin) @ [Next JUndefined]
      \<or> events (corsMiddleware corsOpts req hostNext initial) = [Next JUndefined] @ ?hs @ ?fin"
    using corsMdlwrOptions_reaches_handler [OF e assms(5)]
    by (simp add: run handler)
  then have "responseCalls (events (corsMiddleware corsOpts req hostNext initial)) =
      responseCalls ?hs @ ?fin"
    by (auto simp: responseCalls_def)
  then have "responseCalls (events (corsMiddleware corsOpts req hostNext initial)) = ?hs @ ?fin"
    by (simp only: responseCalls_headerCalls [OF calls])
  with calls len show ?thesis
    by blast
qed

theorem middleware_preflight_short_circuit_witness:
  "method' \<lparr> method' = Some ''options'', headers = Map.empty \<rparr> = Some ''options''
   \<and> toUpperCase ''options'' = ''OPTIONS''
   \<and> preflightContinue (defaults\<lparr>origin := None, optionsSuccessStatus := None\<rparr>) \<noteq> Some True
   \<and> origin (defaults\<lparr>origin := None, optionsSuccessStatus := None\<rparr>) = None
   \<and> (\<exists>hs. responseCalls (events (corsMiddleware
              (OptionsObject (defaults\<lparr>origin := None, optionsSuccessStatus := None\<rparr>))
              \<lparr> method' = Some ''options'', headers = Map.empty \<rparr> hostNext initial)) =
            hs @ [SetStatusCode (Some 204), SetHeader ''Content-Length'' ''0'', End]
          \<and> list_all isHeaderCall hs \<and> headerValues ''Content-Length'' hs = [])
   \<and> truthyOrigin (Some (Array [Str ''http://a.com'']))
   \<and> (\<exists>hs. responseCalls (events (corsMiddleware
              (OptionsCallback (\<lambda>req. Later JNull (defaults\<lparr>origin :=
                 Some (Callback (\<lambda>requestOrigin. Later JNull (Some (Array [Str ''http://a.com''])))),
                 optionsSuccessStatus := Some 200\<rparr>)))
              \<lparr> method' = Some ''OPTIONS'', headers = Map.empty \<rparr> hostNext initial)) =
            hs @ [SetStatusCode (Some 200), SetHeader ''Content-Length'' ''0'', End]
          \<and> list_all isHeaderCall hs \<and> headerValues ''Content-Length'' hs = [])"
  using middleware_preflight_short_circuit
    [of "\<lparr> method' = Some ''options'', headers = Map.empty \<rparr>" "''options''"
        "defaults\<lparr>origin := None, optionsSuccessStatus := None\<rparr>"
        "OptionsObject (defaults\<lparr>origin := None, optionsSuccessStatus := None\<rparr>)"
        "Single (Str ''*'')"]
    middleware_preflight_short_circuit
    [of "\<lparr> method' = Some ''OPTIONS'', headers = Map.empty \<rparr>" "''OPTIONS''"
        "defaults\<lparr>origin :=
           Some (Callback (\<lambda>requestOrigin. Later JNull (Some (Array [Str ''http://a.com''])))),
           optionsSuccessStatus := Some 200\<rparr>"
        "OptionsCallback (\<lambda>req. Later JNull (defaults\<lparr>origin :=
           Some (Callback (\<lambda>requestOrigin. Later JNull (Some (Array [Str ''http://a.com''])))),
           optionsSuccessStatus := Some 200\<rparr>))"
        "Array [Str ''http://a.com'']"]
  by (simp add: defaults_def toUpperCase_def toUpperCaseChar_def)

text \<open>
  C2, as stated, fails for the configuration \<open>{ origin: false }\<close>: on an
  \<open>OPTIONS\<close> request with \<open>preflightContinue\<close> false, \<open>corsMdlwrOptions\<close> skips
  the branch on \<open>options.origin\<close> and only calls \<open>next()\<close>; no status is set, no
  \<open>Content-Length\<close>, and the response is not ended.
\<close>

theorem denied_origin_no_short_circuit:
  "method' \<lparr> method' = Some ''OPTIONS'', headers = Map.empty \<rparr> = Some ''OPTIONS''
   \<and> preflightContinue
        (spread defaults (defaults\<lparr>origin := Some (Static (Single (B False)))\<rparr>)) = Some False
   \<and> optionsSuccessStatus
        (spread defaults (defaults\<lparr>origin := Some (Static (Single (B False)))\<rparr>)) = Some 204
   \<and> events (corsMiddleware
        (OptionsObject (defaults\<lparr>origin := Some (Static (Single (B False)))\<rparr>))
        \<lparr> method' = Some ''OPTIONS'', headers = Map.empty \<rparr> hostNext initial) =
      [Next JUndefined]"
  by (simp add: corsMiddleware_def corsMdlwrOptions_def initial_def defaults_def spread_def
      spreadProperty_def hostNext_def Let_def)

subsection \<open>The continuation\<close>

text \<open>
  C1. The continuation is to be invoked exactly once for every request. With the default
  configuration (the options object \<open>{}\<close>) and a \<open>GET\<close> request, \<open>corsHandler\<close>
  calls \<open>next()\<close> (line 140) and \<open>corsMdlwrOptions\<close>, which has no \<open>return\<close> after
  the branch on \<open>options.origin\<close>, calls \<open>next()\<close> again (line 97): the continuation is
  invoked twice, and the promise handler calls \<open>resolve\<close> twice.
\<close>

theorem default_get_calls_next_twice:
  "events (corsMiddleware
      (OptionsObject \<lparr> origin = None, methods = None, allowedHeaders = None, headers = None,
          exposedHeaders = None, credentials = None, maxAge = None, preflightContinue = None,
          optionsSuccessStatus = None \<rparr>)
      \<lparr> method' = Some ''GET'', headers = Map.empty \<rparr> hostNext initial) =
     [SetHeader ''Access-Control-Allow-Origin'' ''*'', Next JUndefined, Next JUndefined]
   \<and> events (asyncHandlerFactory
      (OptionsObject \<lparr> origin = None, methods = None, allowedHeaders = None, headers = None,
          exposedHeaders = None, credentials = None, maxAge = None, preflightContinue = None,
          optionsSuccessStatus = None \<rparr>)
      \<lparr> method' = Some ''GET'', headers = Map.empty \<rparr> initial) =
     [SetHeader ''Access-Control-Allow-Origin'' ''*'', Resolve, Resolve]"
  by (simp add: corsMiddleware_def corsMdlwrOptions_def corsMdlwrOrigin_def corsHandler_def
      asyncHandlerFactory_def expressMiddlewareFactory_def settle_def
      initial_def defaults_def spread_def spreadProperty_def withOrigin_def isPreflight_def
      toUpperCase_def toUpperCaseChar_def originHeaders_def credentialsHeaders_def
      exposedHeadersFn_def setHeader_def hostNext_def Let_def)

text \<open>
  With an origin function that completes later and yields an error, the promise handler
  calls \<open>resolve\<close> (line 97) before it calls \<open>reject\<close> with the error.
\<close>

lemma later_origin_error_resolves_first:
  "events (asyncHandlerFactory
      (OptionsObject (defaults\<lparr>origin :=
         Some (Callback (\<lambda>requestOrigin. Later (JObject ''Error: lookup failed'') None))\<rparr>))
      \<lparr> method' = Some ''GET'', headers = Map.empty \<rparr> initial) =
     [Resolve, Reject (JObject ''Error: lookup failed'')]"
  by (simp add: asyncHandlerFactory_def expressMiddlewareFactory_def corsMiddleware_def
      corsMdlwrOptions_def corsMdlwrOrigin_def settle_def initial_def defaults_def spread_def
      spreadProperty_def Let_def)

subsection \<open>The allowed headers\<close>

text \<open>
  C5, amended. The configured headers are \<open>allowedHeaders\<close> when that is an array or a
  non-empty string, and the \<open>headers\<close> option otherwise. On a preflight request: when
  the configured headers are an array, \<open>Access-Control-Allow-Headers\<close> is set to its
  elements joined with commas if that string is not empty, and is not set if it is empty;
  when they are a non-empty string, the header is set to it; when they are absent or the
  empty string, a non-empty \<open>Access-Control-Request-Headers\<close> of the request is set as
  the header's value and \<open>Access-Control-Request-Headers\<close> is appended to \<open>Vary\<close>, and
  otherwise the header is not set. \<open>Access-Control-Request-Headers\<close> is appended to
  \<open>Vary\<close> in that case only.
\<close>

theorem allowed_headers_policy:
  assumes "method' req = Some m" and "toUpperCase m = ''OPTIONS''"
  shows "headerValues ''Access-Control-Allow-Headers'' (corsHandler options req hostNext []) =
     (case configuredHeaders options of
        Some (L xs) \<Rightarrow> if join '','' xs \<noteq> [] then [join '','' xs] else []
      | Some (S s) \<Rightarrow>
          if s \<noteq> [] then [s]
          else (case IncomingMessage.headers req ''access-control-request-headers'' of
                  None \<Rightarrow> [] | Some v \<Rightarrow> if v \<noteq> [] then [v] else [])
      | None \<Rightarrow>
          (case IncomingMessage.headers req ''access-control-request-headers'' of
             None \<Rightarrow> [] | Some v \<Rightarrow> if v \<noteq> [] then [v] else []))
   \<and> (''Access-Control-Request-Headers'' \<in> set (varyFields (corsHandler options req hostNext []))) =
     (\<not> truthyStringOrArray (configuredHeaders options)
      \<and> truthyString (IncomingMessage.headers req ''access-control-request-headers''))"
proof -
  have pre: "isPreflight req"
    using assms by (rule isPreflight_method)
  have h: "headerValues ''Access-Control-Allow-Headers'' (corsHandler options req hostNext []) =
      headerValues ''Access-Control-Allow-Headers'' (allowedHeadersFn options req [])"
    by (simp add: corsHandler_preflight [OF pre] headerValues_append originHeaders_sets
        credentialsHeaders_sets methodsHeaders_sets cacheHeaders_sets exposedHeadersFn_sets)
  have o: "''Access-Control-Request-Headers'' \<notin> set (varyFields (originHeaders options req []))"
    using varyFields_originHeaders [of options req] by auto
  have v: "(''Access-Control-Request-Headers'' \<in> set (varyFields (corsHandler options req hostNext []))) =
      (''Access-Control-Request-Headers'' \<in> set (varyFields (allowedHeadersFn options req [])))"
    using o
    by (simp add: corsHandler_preflight [OF pre] varyFields_append varyFields_credentialsHeaders
        varyFields_methodsHeaders varyFields_cacheHeaders varyFields_exposedHeadersFn)
  show ?thesis
    unfolding h v allowedHeadersFn_cases
    by (simp split: option.splits StringOrArray.splits)
qed

theorem allowed_headers_policy_witness:
  "method' \<lparr> method' = Some ''OPTIONS'',
             headers = [''access-control-request-headers'' \<mapsto> ''X-Foo,X-Bar''] \<rparr> = Some ''OPTIONS''
   \<and> toUpperCase ''OPTIONS'' = ''OPTIONS''
   \<and> headerValues ''Access-Control-Allow-Headers''
       (corsHandler (withOrigin defaults (Some (Single (Str ''*''))))
          \<lparr> method' = Some ''OPTIONS'',
            headers = [''access-control-request-headers'' \<mapsto> ''X-Foo,X-Bar''] \<rparr> hostNext []) =
       [''X-Foo,X-Bar'']
   \<and> ''Access-Control-Request-Headers'' \<in> set (varyFields
       (corsHandler (withOrigin defaults (Some (Single (Str ''*''))))
          \<lparr> method' = Some ''OPTIONS'',
            headers = [''access-control-request-headers'' \<mapsto> ''X-Foo,X-Bar''] \<rparr> hostNext []))
   \<and> headerValues ''Access-Control-Allow-Headers''
       (corsHandler
          (withOrigin (defaults\<lparr>allowedHeaders := Some (L [''Content-Type'', ''Authorization''])\<rparr>)
             (Some (Single (Str ''*''))))
          \<lparr> method' = Some ''OPTIONS'',
            headers = [''access-control-request-headers'' \<mapsto> ''X-Foo,X-Bar''] \<rparr> hostNext []) =
       [''Content-Type,Authorization'']"
  using allowed_headers_policy
    [of "\<lparr> method' = Some ''OPTIONS'',
            headers = [''access-control-request-headers'' \<mapsto> ''X-Foo,X-Bar''] \<rparr>" "''OPTIONS''"
        "withOrigin defaults (Some (Single (Str ''*'')))"]
    allowed_headers_policy
    [of "\<lparr> method' = Some ''OPTIONS'',
            headers = [''access-control-request-headers'' \<mapsto> ''X-Foo,X-Bar''] \<rparr>" "''OPTIONS''"
        "withOrigin (defaults\<lparr>allowedHeaders := Some (L [''Content-Type'', ''Authorization''])\<rparr>)
             (Some (Single (Str ''*'')))"]
  by (simp add: withOrigin_def defaults_def configuredHeaders_def toUpperCase_def
      toUpperCaseChar_def)

text \<open>
  C5, as stated, fails for \<open>allowedHeaders: []\<close>: the array is not a non-empty
  configuration, the request carries \<open>Access-Control-Request-Headers\<close>, and that value is
  not reflected, since an empty array is truthy and the branch that reflects is not taken.
\<close>

theorem empty_allowed_headers_not_reflected:
  "allowedHeaders (withOrigin (defaults\<lparr>allowedHeaders := Some (L [])\<rparr>) (Some (Single (Str ''*''))))
     = Some (L [])
   \<and> IncomingMessage.headers
       \<lparr> method' = Some ''OPTIONS'',
         headers = [''access-control-request-headers'' \<mapsto> ''X-Foo,X-Bar''] \<rparr>
       ''access-control-request-headers'' = Some ''X-Foo,X-Bar''
   \<and> headerValues ''Access-Control-Allow-Headers''
       (corsHandler
          (withOrigin (defaults\<lparr>allowedHeaders := Some (L [])\<rparr>) (Some (Single (Str ''*''))))
          \<lparr> method' = Some ''OPTIONS'',
            headers = [''access-control-request-headers'' \<mapsto> ''X-Foo,X-Bar''] \<rparr> hostNext []) = []"
  by (simp add: corsHandler_def isPreflight_def toUpperCase_def toUpperCaseChar_def
      originHeaders_def credentialsHeaders_def methodsHeaders_def allowedHeadersFn_def
      cacheHeaders_def exposedHeadersFn_def configuredHeaders_def withOrigin_def defaults_def
      setHeader_def setStatusCode_def end_response_def Let_def)

subsection \<open>The maximum age\<close>

text \<open>
  C6. \<open>cacheHeaders\<close> sets \<open>Access-Control-Max-Age\<close> to the digits of a number, and
  to a string that is not empty; it sets nothing for an absent \<open>maxAge\<close> and for the
  empty string. The number 0 gives \<open>"0"\<close>. \<open>corsHandler\<close> calls \<open>cacheHeaders\<close> on a
  preflight request, and on no other.
\<close>

theorem max_age_header:
  "cacheHeaders options tr =
     (case maxAge options of
        None \<Rightarrow> tr
      | Some (Num n) \<Rightarrow> tr @ [SetHeader ''Access-Control-Max-Age'' (numberToString n)]
      | Some (NumStr s) \<Rightarrow>
          if s \<noteq> [] then tr @ [SetHeader ''Access-Control-Max-Age'' s] else tr)
   \<and> numberToString 0 = ''0''
   \<and> (if isPreflight req
       then headerValues ''Access-Control-Max-Age'' (corsHandler options req hostNext []) =
            headerValues ''Access-Control-Max-Age'' (cacheHeaders options [])
       else headerValues ''Access-Control-Max-Age'' (corsHandler options req hostNext []) = [])"
proof -
  have 1: "cacheHeaders options tr =
     (case maxAge options of
        None \<Rightarrow> tr
      | Some (Num n) \<Rightarrow> tr @ [SetHeader ''Access-Control-Max-Age'' (numberToString n)]
      | Some (NumStr s) \<Rightarrow>
          if s \<noteq> [] then tr @ [SetHeader ''Access-Control-Max-Age'' s] else tr)"
    by (simp add: cacheHeaders_def setHeader_def numberToString_not_empty
        split: option.splits NumberOrString.splits)
  have 2: "numberToString 0 = ''0''"
    by (simp add: numberToString_def natToString.simps digit_def)
  have 3: "isPreflight req \<Longrightarrow>
      headerValues ''Access-Control-Max-Age'' (corsHandler options req hostNext []) =
      headerValues ''Access-Control-Max-Age'' (cacheHeaders options [])"
    by (simp add: corsHandler_preflight headerValues_append originHeaders_sets
        credentialsHeaders_sets methodsHeaders_sets allowedHeadersFn_sets exposedHeadersFn_sets)
  have 4: "\<not> isPreflight req \<Longrightarrow>
      headerValues ''Access-Control-Max-Age'' (corsHandler options req hostNext []) = []"
    by (simp add: corsHandler_actual headerValues_append originHeaders_sets
        credentialsHeaders_sets exposedHeadersFn_sets)
  show ?thesis
    using 1 2 3 4 by simp
qed

theorem max_age_header_witness:
  "maxAge (withOrigin (defaults\<lparr>maxAge := Some (Num 0)\<rparr>) (Some (Single (Str ''*'')))) = Some (Num 0)
   \<and> cacheHeaders (withOrigin (defaults\<lparr>maxAge := Some (Num 0)\<rparr>) (Some (Single (Str ''*'')))) [] =
       [SetHeader ''Access-Control-Max-Age'' ''0'']
   \<and> headerValues ''Access-Control-Max-Age''
       (corsHandler (withOrigin (defaults\<lparr>maxAge := Some (Num 0)\<rparr>) (Some (Single (Str ''*''))))
          \<lparr> method' = Some ''OPTIONS'', headers = Map.empty \<rparr> hostNext []) = [''0'']"
  using max_age_header
    [of "withOrigin (defaults\<lparr>maxAge := Some (Num 0)\<rparr>) (Some (Single (Str ''*'')))" "[]"
        "\<lparr> method' = Some ''OPTIONS'', headers = Map.empty \<rparr>"]
  by (simp add: withOrigin_def defaults_def isPreflight_def toUpperCase_def toUpperCaseChar_def)

subsection \<open>The credentials\<close>

text \<open>
  C7. \<open>Access-Control-Allow-Credentials\<close> is set, to \<open>"true"\<close>, if and only if the
  \<open>credentials\<close> property is the boolean \<open>true\<close>; for any other value, truthy or not,
  and for an absent property, the header is not set.
\<close>

theorem credentials_header:
  "headerValues ''Access-Control-Allow-Credentials'' (corsHandler options req hostNext []) =
     (if credentials options = Some (JBool True) then [''true''] else [])"
proof -
  have "headerValues ''Access-Control-Allow-Credentials'' (corsHandler options req hostNext []) =
      headerValues ''Access-Control-Allow-Credentials'' (credentialsHeaders options [])"
    by (cases "isPreflight req")
      (simp_all add: corsHandler_preflight corsHandler_actual headerValues_append
        originHeaders_sets methodsHeaders_sets allowedHeadersFn_sets cacheHeaders_sets
        exposedHeadersFn_sets)
  then show ?thesis
    by (simp add: credentialsHeaders_def setHeader_def)
qed

theorem credentials_header_witness:
  "headerValues ''Access-Control-Allow-Credentials''
     (corsHandler (withOrigin (defaults\<lparr>credentials := Some (JBool True)\<rparr>) (Some (Single (Str ''*''))))
        \<lparr> method' = Some ''GET'', headers = Map.empty \<rparr> hostNext []) = [''true'']
   \<and> truthy (JString ''true'')
   \<and> headerValues ''Access-Control-Allow-Credentials''
     (corsHandler
        (withOrigin (defaults\<lparr>credentials := Some (JString ''true'')\<rparr>) (Some (Single (Str ''*''))))
        \<lparr> method' = Some ''GET'', headers = Map.empty \<rparr> hostNext []) = []
   \<and> headerValues ''Access-Control-Allow-Credentials''
     (corsHandler (withOrigin defaults (Some (Single (Str ''*''))))
        \<lparr> method' = Some ''GET'', headers = Map.empty \<rparr> hostNext []) = []"
  using credentials_header
    [of "withOrigin (defaults\<lparr>credentials := Some (JBool True)\<rparr>) (Some (Single (Str ''*'')))"
        "\<lparr> method' = Some ''GET'', headers = Map.empty \<rparr>"]
    credentials_header
    [of "withOrigin (defaults\<lparr>credentials := Some (JString ''true'')\<rparr>) (Some (Single (Str ''*'')))"
        "\<lparr> method' = Some ''GET'', headers = Map.empty \<rparr>"]
    credentials_header
    [of "withOrigin defaults (Some (Single (Str ''*'')))"
        "\<lparr> method' = Some ''GET'', headers = Map.empty \<rparr>"]
  by (simp add: withOrigin_def defaults_def)

subsection \<open>The merge over the defaults\<close>




subsection \<open>Successive invocations\<close>

text \<open>
  Within one invocation the objects and the predicates agree: \<open>isOriginAllowed\<close> on
  the objects gives what it gives on the predicates that one invocation sees.
\<close>

lemma allowedObject_snapshot:
  "fst (allowedObject requestOrigin a) = allowed requestOrigin (snapshotEntry a)"
  by (cases a) (simp_all split: prod.splits)

lemma truthyEntry_allowedObject:
  "truthyEntry (snd (allowedObject requestOrigin a)) = truthyAtom (snapshotEntry a)"
  by (cases a) (simp_all split: prod.splits)

lemma findObject_snapshot:
  "(case fst (findObject requestOrigin xs) of None \<Rightarrow> False | Some a \<Rightarrow> truthyEntry a) =
   (case find (allowed requestOrigin) (map snapshotEntry xs) of
      None \<Rightarrow> False | Some a \<Rightarrow> truthyAtom a)"
proof (induction xs)
  case Nil
  show ?case by simp
next
  case (Cons x xs)
  show ?case
    using Cons allowedObject_snapshot [of requestOrigin x]
      truthyEntry_allowedObject [of requestOrigin x]
    by (auto split: prod.splits)
qed

lemma isOriginAllowedObject_snapshot:
  "fst (isOriginAllowedObject requestOrigin policy) =
   isOriginAllowed requestOrigin (snapshot policy)"
proof (cases policy)
  case (SingleObject a)
  then show ?thesis
    using allowedObject_snapshot [of requestOrigin a] by (auto split: prod.splits)
next
  case (ArrayObject xs)
  then show ?thesis
    using findObject_snapshot [of requestOrigin xs] by (auto split: prod.splits)
qed

text \<open>
  Without the \<open>g\<close> and \<open>y\<close> flags an invocation leaves the configuration as it
  found it.
\<close>

lemma allowedObject_unflagged:
  "unflaggedEntry a \<Longrightarrow> snd (allowedObject requestOrigin a) = a"
  by (cases a) (simp_all add: test_def)

lemma findObject_unflagged:
  "list_all unflaggedEntry xs \<Longrightarrow> snd (findObject requestOrigin xs) = xs"
proof (induction xs)
  case Nil
  show ?case by simp
next
  case (Cons x xs)
  then show ?case
    using allowedObject_unflagged [of x requestOrigin]
    by (auto split: prod.splits)
qed

lemma isOriginAllowedObject_unflagged:
  "unflagged (Some policy) \<Longrightarrow> snd (isOriginAllowedObject requestOrigin policy) = policy"
proof (cases policy)
  case (SingleObject a)
  assume "unflagged (Some policy)"
  with SingleObject show ?thesis
    using allowedObject_unflagged [of a requestOrigin] by (auto split: prod.splits)
next
  case (ArrayObject xs)
  assume "unflagged (Some policy)"
  with ArrayObject show ?thesis
    using findObject_unflagged [of xs requestOrigin] by (auto split: prod.splits)
qed

lemma originAfter_unflagged: "unflagged org \<Longrightarrow> originAfter requestOrigin org = org"
  by (cases org)
    (simp_all add: originAfter_def isOriginAllowedObject_unflagged split: option.splits)

lemma corsHandler_appends:
  "corsHandler options req hostNext tr = tr @ corsHandler options req hostNext []"
  by (cases "isPreflight req") (simp_all add: corsHandler_preflight corsHandler_actual)

text \<open>
  C9, amended. When no \<open>RegExp\<close> of the origin policy carries the \<open>g\<close> or the
  \<open>y\<close> flag, an invocation of \<open>corsHandler\<close> leaves the configuration unchanged, and
  a second invocation, on the configuration the first one left and on the same request,
  makes the same calls on the response and the continuation as the first, whatever calls
  were made before each of them.
\<close>

theorem unflagged_patterns_deterministic:
  assumes "unflagged (origin options)"
  shows "snd (corsHandlerObject options req hostNext tr1) = options
       \<and> drop (length tr1) (fst (corsHandlerObject options req hostNext tr1)) =
         drop (length tr2)
           (fst (corsHandlerObject (snd (corsHandlerObject options req hostNext tr1)) req hostNext
                  tr2))"
proof -
  have same: "snd (corsHandlerObject options req hostNext tr1) = options"
    using assms by (simp add: corsHandlerObject_def originAfter_unflagged)
  have "drop (length tr) (fst (corsHandlerObject options req hostNext tr)) =
      corsHandler (resolvedOptions options) req hostNext []" for tr
    using corsHandler_appends [of "resolvedOptions options" req tr]
    by (simp add: corsHandlerObject_def)
  from this [of tr1] this [of tr2] same show ?thesis
    by simp
qed

theorem unflagged_patterns_deterministic_witness:
  "unflagged (origin
      (\<lparr> origin = Some (SingleObject (RegExpEntry
            \<lparr> exec = suffixExec ''example.com'', globalOrSticky = False, lastIndex = 0 \<rparr>)),
          methods = None, allowedHeaders = None, headers = None, exposedHeaders = None,
          credentials = None, maxAge = None, preflightContinue = None,
          optionsSuccessStatus = None \<rparr>))
   \<and> snd (corsHandlerObject
        (\<lparr> origin = Some (SingleObject (RegExpEntry
            \<lparr> exec = suffixExec ''example.com'', globalOrSticky = False, lastIndex = 0 \<rparr>)),
          methods = None, allowedHeaders = None, headers = None, exposedHeaders = None,
          credentials = None, maxAge = None, preflightContinue = None,
          optionsSuccessStatus = None \<rparr>)
        \<lparr> method' = Some ''GET'', headers = [''origin'' \<mapsto> ''http://example.com''] \<rparr> hostNext []) =
       (\<lparr> origin = Some (SingleObject (RegExpEntry
            \<lparr> exec = suffixExec ''example.com'', globalOrSticky = False, lastIndex = 0 \<rparr>)),
          methods = None, allowedHeaders = None, headers = None, exposedHeaders = None,
          credentials = None, maxAge = None, preflightContinue = None,
          optionsSuccessStatus = None \<rparr>)
   \<and> drop (length ([] :: trace)) (fst (corsHandlerObject
        (\<lparr> origin = Some (SingleObject (RegExpEntry
            \<lparr> exec = suffixExec ''example.com'', globalOrSticky = False, lastIndex = 0 \<rparr>)),
          methods = None, allowedHeaders = None, headers = None, exposedHeaders = None,
          credentials = None, maxAge = None, preflightContinue = None,
          optionsSuccessStatus = None \<rparr>)
        \<lparr> method' = Some ''GET'', headers = [''origin'' \<mapsto> ''http://example.com''] \<rparr> hostNext [])) =
     drop (length [Vary ''Accept-Encoding''])
       (fst (corsHandlerObject
          (snd (corsHandlerObject
            (\<lparr> origin = Some (SingleObject (RegExpEntry
            \<lparr> exec = suffixExec ''example.com'', globalOrSticky = False, lastIndex = 0 \<rparr>)),
          methods = None, allowedHeaders = None, headers = None, exposedHeaders = None,
          credentials = None, maxAge = None, preflightContinue = None,
          optionsSuccessStatus = None \<rparr>)
            \<lparr> method' = Some ''GET'', headers = [''origin'' \<mapsto> ''http://example.com''] \<rparr> hostNext []))
          \<lparr> method' = Some ''GET'', headers = [''origin'' \<mapsto> ''http://example.com''] \<rparr> hostNext [Vary ''Accept-Encoding'']))"
  using unflagged_patterns_deterministic
    [of "\<lparr> origin = Some (SingleObject (RegExpEntry
            \<lparr> exec = suffixExec ''example.com'', globalOrSticky = False, lastIndex = 0 \<rparr>)),
          methods = None, allowedHeaders = None, headers = None, exposedHeaders = None,
          credentials = None, maxAge = None, preflightContinue = None,
          optionsSuccessStatus = None \<rparr>"
        "\<lparr> method' = Some ''GET'', headers = [''origin'' \<mapsto> ''http://example.com''] \<rparr>" "[]" "[Vary ''Accept-Encoding'']"]
  by simp

text \<open>
  C9, as stated, fails for the origin \<open>/example\.com$/g\<close>: on a first request from
  \<open>http://example.com\<close> \<open>test\<close> matches, the origin is reflected, and \<open>lastIndex\<close>
  is left at 18; on a second, identical request \<open>test\<close> searches from 18, finds no
  match, and \<open>Access-Control-Allow-Origin\<close> is not set.
\<close>

theorem flagged_pattern_second_invocation_differs:
  "headerValues ''Access-Control-Allow-Origin'' (fst (corsHandlerObject
        (\<lparr> origin = Some (SingleObject (RegExpEntry
            \<lparr> exec = suffixExec ''example.com'', globalOrSticky = True, lastIndex = 0 \<rparr>)),
          methods = None, allowedHeaders = None, headers = None, exposedHeaders = None,
          credentials = None, maxAge = None, preflightContinue = None,
          optionsSuccessStatus = None \<rparr>)
        \<lparr> method' = Some ''GET'', headers = [''origin'' \<mapsto> ''http://example.com''] \<rparr> hostNext [])) = [''http://example.com'']
   \<and> headerValues ''Access-Control-Allow-Origin'' (fst (corsHandlerObject
        (snd (corsHandlerObject
          (\<lparr> origin = Some (SingleObject (RegExpEntry
            \<lparr> exec = suffixExec ''example.com'', globalOrSticky = True, lastIndex = 0 \<rparr>)),
          methods = None, allowedHeaders = None, headers = None, exposedHeaders = None,
          credentials = None, maxAge = None, preflightContinue = None,
          optionsSuccessStatus = None \<rparr>)
          \<lparr> method' = Some ''GET'', headers = [''origin'' \<mapsto> ''http://example.com''] \<rparr> hostNext []))
        \<lparr> method' = Some ''GET'', headers = [''origin'' \<mapsto> ''http://example.com''] \<rparr> hostNext [])) = []"
  by (simp add: corsHandlerObject_def originAfter_def resolvedOptions_def test_def suffixExec_def
      endsWith_def headerValues_corsHandler_origin originHeaders_def reflectOrDeny_def
      setHeader_def vary_def Let_def)

end
